theory Spec2Isabelle
  imports Main
begin

section \<open>ProjectHeader.vue: the script of the component\<close>

text \<open>
  The component reads three stores and the current route, computes the values its
  template shows, and reacts to the selection of a creation action by a call of
  \<^verbatim>\<open>router.push\<close> or by emitting \<^verbatim>\<open>createFolder\<close>. The stores, the route and
  the two logs of effects form the state; every computed value is a function of the
  state, and \<^verbatim>\<open>onSelect\<close> returns the state it leaves.
\<close>

subsection \<open>JavaScript values\<close>

text \<open>
  \<^verbatim>\<open>undefined\<close> and \<^verbatim>\<open>null\<close> are \<open>None\<close>. A boolean that may be undefined is
  true under \<^verbatim>\<open>!!\<close> only when it is present and true; a string that may be
  undefined only when it is present and not empty.
\<close>

fun truthy :: "bool option \<Rightarrow> bool" where
  "truthy None = False"
| "truthy (Some b) = b"

fun truthyString :: "string option \<Rightarrow> bool" where
  "truthyString None = False"
| "truthyString (Some s) = (s \<noteq> [])"

text \<open>The value of a route parameter is a string or, for a repeatable one, an array of
  strings. Every array is true under \<^verbatim>\<open>!!\<close>, the empty one too.\<close>

datatype RouteParamValue = PString string | PArray "string list"

fun truthyParam :: "RouteParamValue option \<Rightarrow> bool" where
  "truthyParam None = False"
| "truthyParam (Some (PString s)) = (s \<noteq> [])"
| "truthyParam (Some (PArray xs)) = True"

text \<open>\<^verbatim>\<open>a ?? b\<close>\<close>

fun nullish :: "'a option \<Rightarrow> 'a \<Rightarrow> 'a" where
  "nullish None d = d"
| "nullish (Some x) d = x"

datatype error = TypeError

subsection \<open>Imported types and constants\<close>

text \<open>
  Modelled from the spec: the declarations of \<^verbatim>\<open>@/types/projects.types\<close>,
  \<^verbatim>\<open>@/constants\<close> and \<^verbatim>\<open>@/permissions\<close> are not among the sources. A project has
  an identifier, a display name, a type (Personal, Team or another), an icon
  descriptor and permission scopes; the name, the icon and the scopes may be
  missing, as the optional chaining and the \<^verbatim>\<open>??\<close> of the component allow.
\<close>

datatype ProjectTypes = Personal | Team | Other

datatype IconType = icon | emoji

record ProjectIconType =
  icon_type :: IconType
  icon_value :: string

type_synonym Scope = string

record Project =
  project_id :: string
  project_name :: "string option"
  project_type :: ProjectTypes
  project_icon :: "ProjectIconType option"
  project_scopes :: "Scope list option"

text \<open>
  Modelled from the spec: the enumeration \<^verbatim>\<open>VIEWS\<close> of \<^verbatim>\<open>@/constants\<close>, with the
  members the component names and one constructor for all the others.
\<close>

datatype VIEWS =
    PROJECTS_WORKFLOWS
  | PROJECTS_FOLDERS
  | NEW_WORKFLOW
  | PROJECTS_CREDENTIALS
  | PROJECT_SETTINGS
  | OTHER_VIEW string

text \<open>
  Modelled from the spec: the capability record that the permissions resolver
  returns, with the resources and operations the component reads. A capability
  that the scopes do not give may be false or missing.
\<close>

record ResourcePermissions =
  perm_create :: "bool option"
  perm_update :: "bool option"

record PermissionsRecord =
  perm_project :: ResourcePermissions
  perm_workflow :: ResourcePermissions
  perm_credential :: ResourcePermissions
  perm_folder :: ResourcePermissions

text \<open>
  The resolver \<^verbatim>\<open>getResourcePermissions\<close> and the text provider
  \<^verbatim>\<open>i18n.baseText\<close> are pure functions from outside the component. Every
  definition that calls one takes it as a parameter, so that what is proved holds
  for every resolver and every translation.
\<close>

type_synonym Resolver = "Scope list option \<Rightarrow> PermissionsRecord"
type_synonym BaseText = "string \<Rightarrow> string"

subsection \<open>The state: route, stores, and the effects so far\<close>

record Route =
  route_name :: "VIEWS option"
  route_params :: "string \<rightharpoonup> RouteParamValue"

record ProjectsStore =
  currentProject :: "Project option"
  personalProject :: "Project option"

record SourceControlPreferences =
  branchReadOnly :: bool

record SourceControlStore =
  preferences :: SourceControlPreferences

record SettingsStore =
  isFoldersFeatureEnabled :: bool

text \<open>The argument of \<^verbatim>\<open>router.push\<close>: an object literal, its properties in the
  order of the source. A \<^verbatim>\<open>query\<close> or \<^verbatim>\<open>params\<close> that the literal does not have
  is the empty list.\<close>

record RouteLocationRaw =
  loc_name :: VIEWS
  loc_query :: "(string \<times> RouteParamValue option) list"
  loc_params :: "(string \<times> RouteParamValue option) list"

record State =
  route :: Route
  projectsStore :: ProjectsStore
  sourceControlStore :: SourceControlStore
  settingsStore :: SettingsStore
  pushed :: "RouteLocationRaw list"
  emitted :: "string list"

subsection \<open>Computed values\<close>

definition headerIcon :: "State \<Rightarrow> ProjectIconType" where
  "headerIcon st =
     (if map_option project_type (currentProject (projectsStore st)) = Some Personal then
        \<lparr>icon_type = icon, icon_value = ''user''\<rparr>
      else if truthyString (Option.bind (currentProject (projectsStore st)) project_name) then
        nullish (Option.bind (currentProject (projectsStore st)) project_icon)
          \<lparr>icon_type = icon, icon_value = ''layer-group''\<rparr>
      else
        \<lparr>icon_type = icon, icon_value = ''home''\<rparr>)"

definition projectName :: "BaseText \<Rightarrow> State \<Rightarrow> string option" where
  "projectName baseText st =
     (case currentProject (projectsStore st) of
        None \<Rightarrow> Some (baseText ''projects.menu.overview'')
      | Some p \<Rightarrow>
          if project_type p = Personal then Some (baseText ''projects.menu.personal'')
          else project_name p)"

definition projectPermissions :: "Resolver \<Rightarrow> State \<Rightarrow> ResourcePermissions" where
  "projectPermissions getResourcePermissions st =
     perm_project
       (getResourcePermissions (Option.bind (currentProject (projectsStore st)) project_scopes))"

definition showSettings :: "Resolver \<Rightarrow> State \<Rightarrow> bool" where
  "showSettings getResourcePermissions st =
     (truthyParam (route_params (route st) ''projectId'') \<and>
      truthy (perm_update (projectPermissions getResourcePermissions st)) \<and>
      map_option project_type (currentProject (projectsStore st)) = Some Team)"

definition homeProject :: "State \<Rightarrow> Project option" where
  "homeProject st =
     (case currentProject (projectsStore st) of
        Some p \<Rightarrow> Some p
      | None \<Rightarrow> personalProject (projectsStore st))"

definition showFolders :: "State \<Rightarrow> bool" where
  "showFolders st =
     (isFoldersFeatureEnabled (settingsStore st) \<and>
      (case route_name (route st) of
         None \<Rightarrow> False
       | Some n \<Rightarrow> n \<in> set [PROJECTS_WORKFLOWS, PROJECTS_FOLDERS]))"

subsection \<open>Action descriptors\<close>

definition WORKFLOW :: string where "WORKFLOW = ''workflow''"
definition CREDENTIAL :: string where "CREDENTIAL = ''credential''"
definition FOLDER :: string where "FOLDER = ''folder''"

record UserAction =
  action_value :: string
  action_label :: string
  disabled :: bool

record ButtonProps = UserAction +
  button_icon :: "string option"
  button_size :: string

definition createWorkflowButton :: "Resolver \<Rightarrow> BaseText \<Rightarrow> State \<Rightarrow> ButtonProps" where
  "createWorkflowButton getResourcePermissions baseText st =
     \<lparr>action_value = WORKFLOW,
      action_label = baseText ''projects.header.create.workflow'',
      disabled =
        (branchReadOnly (preferences (sourceControlStore st)) \<or>
         \<not> truthy (perm_create (perm_workflow
              (getResourcePermissions (Option.bind (homeProject st) project_scopes))))),
      button_icon =
        (if branchReadOnly (preferences (sourceControlStore st)) then Some ''lock'' else None),
      button_size = ''mini''\<rparr>"

definition menu :: "Resolver \<Rightarrow> BaseText \<Rightarrow> State \<Rightarrow> UserAction list" where
  "menu getResourcePermissions baseText st =
     (let items =
        [\<lparr>action_value = CREDENTIAL,
          action_label = baseText ''projects.header.create.credential'',
          disabled =
            (branchReadOnly (preferences (sourceControlStore st)) \<or>
             \<not> truthy (perm_create (perm_credential
                  (getResourcePermissions (Option.bind (homeProject st) project_scopes)))))\<rparr>]
      in if showFolders st then
           items @
           [\<lparr>action_value = FOLDER,
             action_label = baseText ''projects.header.create.folder'',
             disabled =
               (branchReadOnly (preferences (sourceControlStore st)) \<or>
                \<not> truthy (perm_create (perm_folder
                     (getResourcePermissions (Option.bind (homeProject st) project_scopes)))))\<rparr>]
         else items)"

subsection \<open>Selecting an action\<close>

text \<open>\<^verbatim>\<open>router.push\<close> and \<^verbatim>\<open>emit\<close> are recorded in the state, in the order of
  the calls.\<close>

definition router_push :: "RouteLocationRaw \<Rightarrow> State \<Rightarrow> State" where
  "router_push loc st = st\<lparr>pushed := pushed st @ [loc]\<rparr>"

definition emit :: "string \<Rightarrow> State \<Rightarrow> State" where
  "emit event st = st\<lparr>emitted := emitted st @ [event]\<rparr>"

text \<open>
  The lookup \<^verbatim>\<open>actions[action]\<close>. The handler of \<^verbatim>\<open>folder\<close> takes no parameter:
  the project id it is called with is dropped. The table is an object literal, so
  a lookup also finds the members it inherits from \<^verbatim>\<open>Object.prototype\<close>. Called
  with a string and no receiver, \<^verbatim>\<open>toString\<close>, \<^verbatim>\<open>constructor\<close> and
  \<^verbatim>\<open>isPrototypeOf\<close> return and do nothing; each of the other inherited members
  throws a \<^verbatim>\<open>TypeError\<close> when called so, as does the call of a value that is
  not a function or is undefined. These are \<open>None\<close>, which \<^verbatim>\<open>onSelect\<close> turns
  into the error.
\<close>

definition actions :: "string \<Rightarrow> (string \<Rightarrow> State \<Rightarrow> State) option" where
  "actions action =
     (if action = WORKFLOW then
        Some (\<lambda>projectId st.
          router_push
            \<lparr>loc_name = NEW_WORKFLOW,
             loc_query =
               [(''projectId'', Some (PString projectId)),
                (''parentFolderId'', route_params (route st) ''folderId'')],
             loc_params = []\<rparr> st)
      else if action = CREDENTIAL then
        Some (\<lambda>projectId st.
          router_push
            \<lparr>loc_name = PROJECTS_CREDENTIALS,
             loc_query = [],
             loc_params =
               [(''projectId'', Some (PString projectId)),
                (''credentialId'', Some (PString ''create''))]\<rparr> st)
      else if action = FOLDER then
        Some (\<lambda>projectId st. emit ''createFolder'' st)
      else if action \<in> set [''toString'', ''constructor'', ''isPrototypeOf''] then
        Some (\<lambda>projectId st. st)
      else None)"

text \<open>Without a home project \<^verbatim>\<open>onSelect\<close> returns before the call. With one, a
  call that the lookup gives no handler for throws.\<close>

definition onSelect :: "string \<Rightarrow> State \<Rightarrow> error + State" where
  "onSelect action st =
     (let executableAction = actions action in
      case homeProject st of
        None \<Rightarrow> Inr st
      | Some home \<Rightarrow>
          (case executableAction of
             None \<Rightarrow> Inl TypeError
           | Some f \<Rightarrow> Inr (f (project_id home) st)))"

subsection \<open>A resolver and a state for concrete inputs\<close>

text \<open>
  Modelled from the spec: a resolver that maps a scope list to a capability record
  with one boolean per resource and operation. It gives \<^verbatim>\<open>resource.operation\<close>
  when the list has the scope \<^verbatim>\<open>resource:operation\<close>, and takes a missing list
  for the empty one. It is used at concrete inputs only.
\<close>

definition scopePermissions :: "Scope list \<Rightarrow> string \<Rightarrow> ResourcePermissions" where
  "scopePermissions scopes resource =
     \<lparr>perm_create = (if resource @ '':create'' \<in> set scopes then Some True else None),
      perm_update = (if resource @ '':update'' \<in> set scopes then Some True else None)\<rparr>"

definition scopeResolver :: Resolver where
  "scopeResolver resourceScopes =
     (let scopes = nullish resourceScopes [] in
      \<lparr>perm_project = scopePermissions scopes ''project'',
       perm_workflow = scopePermissions scopes ''workflow'',
       perm_credential = scopePermissions scopes ''credential'',
       perm_folder = scopePermissions scopes ''folder''\<rparr>)"

definition keyText :: BaseText where
  "keyText key = key"

definition mkProject :: "string \<Rightarrow> string option \<Rightarrow> ProjectTypes \<Rightarrow> Scope list \<Rightarrow> Project" where
  "mkProject i n t scopes =
     \<lparr>project_id = i, project_name = n, project_type = t, project_icon = None,
      project_scopes = Some scopes\<rparr>"

definition mkState ::
  "VIEWS option \<Rightarrow> (string \<rightharpoonup> RouteParamValue) \<Rightarrow> Project option \<Rightarrow> Project option \<Rightarrow>
   bool \<Rightarrow> bool \<Rightarrow> State" where
  "mkState n ps cur personal readOnly folders =
     \<lparr>route = \<lparr>route_name = n, route_params = ps\<rparr>,
      projectsStore = \<lparr>currentProject = cur, personalProject = personal\<rparr>,
      sourceControlStore = \<lparr>preferences = \<lparr>branchReadOnly = readOnly\<rparr>\<rparr>,
      settingsStore = \<lparr>isFoldersFeatureEnabled = folders\<rparr>,
      pushed = [],
      emitted = []\<rparr>"

section \<open>Helper facts\<close>

lemma truthy_iff: "truthy x \<longleftrightarrow> x = Some True"
  by (cases x) auto

lemma truthyParam_iff: "truthyParam x \<longleftrightarrow> (\<exists>v. x = Some v \<and> v \<noteq> PString [])"
  by (cases x rule: truthyParam.cases) auto

lemma router_push_frame:
  "route (router_push loc st) = route st"
  "projectsStore (router_push loc st) = projectsStore st"
  "sourceControlStore (router_push loc st) = sourceControlStore st"
  "settingsStore (router_push loc st) = settingsStore st"
  "pushed (router_push loc st) = pushed st @ [loc]"
  "emitted (router_push loc st) = emitted st"
  by (simp_all add: router_push_def)

lemma emit_frame:
  "route (emit e st) = route st"
  "projectsStore (emit e st) = projectsStore st"
  "sourceControlStore (emit e st) = sourceControlStore st"
  "settingsStore (emit e st) = settingsStore st"
  "pushed (emit e st) = pushed st"
  "emitted (emit e st) = emitted st @ [e]"
  by (simp_all add: emit_def)

lemma router_push_changes: "router_push loc st \<noteq> st"
proof
  assume "router_push loc st = st"
  then have "pushed (router_push loc st) = pushed st" by simp
  then show False by (simp add: router_push_frame)
qed

lemma emit_changes: "emit e st \<noteq> st"
proof
  assume "emit e st = st"
  then have "emitted (emit e st) = emitted st" by simp
  then show False by (simp add: emit_frame)
qed

lemma action_names_distinct:
  "WORKFLOW \<noteq> CREDENTIAL" "WORKFLOW \<noteq> FOLDER" "CREDENTIAL \<noteq> FOLDER"
  by (simp_all add: WORKFLOW_def CREDENTIAL_def FOLDER_def)

lemma actions_WORKFLOW:
  "actions WORKFLOW =
     Some (\<lambda>projectId st.
       router_push
         \<lparr>loc_name = NEW_WORKFLOW,
          loc_query =
            [(''projectId'', Some (PString projectId)),
             (''parentFolderId'', route_params (route st) ''folderId'')],
          loc_params = []\<rparr> st)"
  by (simp add: actions_def)

lemma actions_CREDENTIAL:
  "actions CREDENTIAL =
     Some (\<lambda>projectId st.
       router_push
         \<lparr>loc_name = PROJECTS_CREDENTIALS,
          loc_query = [],
          loc_params =
            [(''projectId'', Some (PString projectId)),
             (''credentialId'', Some (PString ''create''))]\<rparr> st)"
  using action_names_distinct by (simp add: actions_def)

lemma actions_FOLDER:
  "actions FOLDER = Some (\<lambda>projectId st. emit ''createFolder'' st)"
  using action_names_distinct by (simp add: actions_def)

lemma actions_cases:
  assumes "actions a = Some f"
  shows "(\<exists>loc. f pid st = router_push loc st) \<or> f pid st = emit ''createFolder'' st \<or>
     f pid st = st"
  using assms by (auto simp: actions_def split: if_splits)

lemma onSelect_inherited_member:
  assumes "homeProject st = Some home"
  shows "onSelect ''toString'' st = Inr st"
    and "onSelect ''constructor'' st = Inr st"
    and "onSelect ''isPrototypeOf'' st = Inr st"
    and "onSelect ''valueOf'' st = Inl TypeError"
    and "onSelect ''__proto__'' st = Inl TypeError"
    and "onSelect ''other'' st = Inl TypeError"
  using assms
  by (simp_all add: onSelect_def actions_def WORKFLOW_def CREDENTIAL_def FOLDER_def)

section \<open>Properties\<close>

subsection \<open>Computed values\<close>

text \<open>
  C4. For every state of the project store, \<^verbatim>\<open>headerIcon\<close> is the user icon when
  the current project is Personal; the project's own icon, or the layer-group icon
  when the project has none, when the current project is not Personal and has a
  name (a name that is present and not the empty string); and the home icon when no
  project is selected.
\<close>

theorem headerIcon_cases:
  "(\<forall>p. currentProject (projectsStore st) = Some p \<and> project_type p = Personal \<longrightarrow>
      headerIcon st = \<lparr>icon_type = icon, icon_value = ''user''\<rparr>) \<and>
   (\<forall>p n. currentProject (projectsStore st) = Some p \<and> project_type p \<noteq> Personal \<and>
      project_name p = Some n \<and> n \<noteq> [] \<longrightarrow>
      headerIcon st =
        (case project_icon p of
           Some i \<Rightarrow> i
         | None \<Rightarrow> \<lparr>icon_type = icon, icon_value = ''layer-group''\<rparr>)) \<and>
   (currentProject (projectsStore st) = None \<longrightarrow>
      headerIcon st = \<lparr>icon_type = icon, icon_value = ''home''\<rparr>)"
  by (auto simp: headerIcon_def split: option.splits)

theorem headerIcon_cases_witness:
  "headerIcon (mkState None Map.empty
       (Some (mkProject ''p1'' (Some ''Me'') Personal [])) None False False) =
     \<lparr>icon_type = icon, icon_value = ''user''\<rparr> \<and>
   headerIcon (mkState None Map.empty
       (Some (mkProject ''p2'' (Some ''Ops'') Team [])) None False False) =
     \<lparr>icon_type = icon, icon_value = ''layer-group''\<rparr> \<and>
   headerIcon (mkState None Map.empty
       (Some ((mkProject ''p3'' (Some ''Lab'') Other [])
          \<lparr>project_icon := Some \<lparr>icon_type = emoji, icon_value = ''x''\<rparr>\<rparr>)) None False False) =
     \<lparr>icon_type = emoji, icon_value = ''x''\<rparr> \<and>
   headerIcon (mkState None Map.empty None None False False) =
     \<lparr>icon_type = icon, icon_value = ''home''\<rparr>"
  using
    headerIcon_cases [of "mkState None Map.empty
       (Some (mkProject ''p1'' (Some ''Me'') Personal [])) None False False"]
    headerIcon_cases [of "mkState None Map.empty
       (Some (mkProject ''p2'' (Some ''Ops'') Team [])) None False False"]
    headerIcon_cases [of "mkState None Map.empty
       (Some ((mkProject ''p3'' (Some ''Lab'') Other [])
          \<lparr>project_icon := Some \<lparr>icon_type = emoji, icon_value = ''x''\<rparr>\<rparr>)) None False False"]
    headerIcon_cases [of "mkState None Map.empty None None False False"]
  by (simp add: mkState_def mkProject_def)

text \<open>
  C3. \<^verbatim>\<open>showSettings\<close> is true if and only if the params of the current route
  have a projectId (a value that is present and not the empty string), the
  permission set resolved from the scopes of the current project grants update, and
  the type of the current project is Team. For a Personal project it is false,
  whatever the permissions.
\<close>

theorem showSettings_iff:
  "(showSettings getResourcePermissions st \<longleftrightarrow>
      (\<exists>v. route_params (route st) ''projectId'' = Some v \<and> v \<noteq> PString []) \<and>
      perm_update (perm_project (getResourcePermissions
        (Option.bind (currentProject (projectsStore st)) project_scopes))) = Some True \<and>
      (\<exists>p. currentProject (projectsStore st) = Some p \<and> project_type p = Team)) \<and>
   (\<forall>p. currentProject (projectsStore st) = Some p \<and> project_type p = Personal \<longrightarrow>
      \<not> showSettings getResourcePermissions st)"
  by (auto simp: showSettings_def projectPermissions_def truthy_iff truthyParam_iff)

theorem showSettings_iff_witness:
  "showSettings scopeResolver
     (mkState None [''projectId'' \<mapsto> PString ''p2'']
        (Some (mkProject ''p2'' (Some ''Ops'') Team [''project:update''])) None False False) \<and>
   \<not> showSettings scopeResolver
     (mkState None [''projectId'' \<mapsto> PString ''p1'']
        (Some (mkProject ''p1'' (Some ''Me'') Personal [''project:update''])) None False False) \<and>
   \<not> showSettings scopeResolver
     (mkState None Map.empty
        (Some (mkProject ''p2'' (Some ''Ops'') Team [''project:update''])) None False False) \<and>
   \<not> showSettings scopeResolver
     (mkState None [''projectId'' \<mapsto> PString ''p2'']
        (Some (mkProject ''p2'' (Some ''Ops'') Team [''project:read''])) None False False)"
  using
    showSettings_iff [of scopeResolver "mkState None [''projectId'' \<mapsto> PString ''p2'']
        (Some (mkProject ''p2'' (Some ''Ops'') Team [''project:update''])) None False False"]
    showSettings_iff [of scopeResolver "mkState None [''projectId'' \<mapsto> PString ''p1'']
        (Some (mkProject ''p1'' (Some ''Me'') Personal [''project:update''])) None False False"]
    showSettings_iff [of scopeResolver "mkState None Map.empty
        (Some (mkProject ''p2'' (Some ''Ops'') Team [''project:update''])) None False False"]
    showSettings_iff [of scopeResolver "mkState None [''projectId'' \<mapsto> PString ''p2'']
        (Some (mkProject ''p2'' (Some ''Ops'') Team [''project:read''])) None False False"]
  by (simp add: mkState_def mkProject_def scopeResolver_def scopePermissions_def)

text \<open>
  C7. \<^verbatim>\<open>showFolders\<close> is true if and only if the folders feature flag of the
  settings store is enabled and the name of the current route is the workflow-list
  view or the folder-list view.
\<close>

theorem showFolders_iff:
  "showFolders st \<longleftrightarrow>
     isFoldersFeatureEnabled (settingsStore st) \<and>
     (route_name (route st) = Some PROJECTS_WORKFLOWS \<or>
      route_name (route st) = Some PROJECTS_FOLDERS)"
  by (auto simp: showFolders_def split: option.splits)

theorem showFolders_iff_witness:
  "showFolders (mkState (Some PROJECTS_FOLDERS) Map.empty None None False True) \<and>
   \<not> showFolders (mkState (Some PROJECT_SETTINGS) Map.empty None None False True) \<and>
   \<not> showFolders (mkState (Some PROJECTS_WORKFLOWS) Map.empty None None False False)"
  using showFolders_iff [of "mkState (Some PROJECTS_FOLDERS) Map.empty None None False True"]
    showFolders_iff [of "mkState (Some PROJECT_SETTINGS) Map.empty None None False True"]
    showFolders_iff [of "mkState (Some PROJECTS_WORKFLOWS) Map.empty None None False False"]
  by (simp add: mkState_def)

subsection \<open>Action descriptors\<close>

text \<open>
  C1. For every combination of the branch-read-only flag and the create
  permissions, the \<^verbatim>\<open>disabled\<close> flag of each action descriptor is the logical OR
  of the branch-read-only flag and the negation of the create permission of the
  action's own resource: workflow for the create-workflow button, credential for
  the first menu item, and folder for the second menu item, which the menu has
  exactly when \<^verbatim>\<open>showFolders\<close> holds.
\<close>

theorem disabled_is_readOnly_or_not_permitted:
  "disabled (createWorkflowButton getResourcePermissions baseText st) =
     (branchReadOnly (preferences (sourceControlStore st)) \<or>
      \<not> truthy (perm_create (perm_workflow
           (getResourcePermissions (Option.bind (homeProject st) project_scopes))))) \<and>
   map (\<lambda>a. (action_value a, disabled a)) (menu getResourcePermissions baseText st) =
     (CREDENTIAL,
      branchReadOnly (preferences (sourceControlStore st)) \<or>
      \<not> truthy (perm_create (perm_credential
           (getResourcePermissions (Option.bind (homeProject st) project_scopes))))) #
     (if showFolders st then
        [(FOLDER,
          branchReadOnly (preferences (sourceControlStore st)) \<or>
          \<not> truthy (perm_create (perm_folder
               (getResourcePermissions (Option.bind (homeProject st) project_scopes)))))]
      else [])"
  by (simp add: createWorkflowButton_def menu_def Let_def)

theorem disabled_is_readOnly_or_not_permitted_witness:
  "disabled (createWorkflowButton scopeResolver keyText
     (mkState (Some PROJECTS_WORKFLOWS) Map.empty
        (Some (mkProject ''p2'' (Some ''Ops'') Team [''workflow:create'', ''folder:create'']))
        None False True)) = False \<and>
   map (\<lambda>a. (action_value a, disabled a)) (menu scopeResolver keyText
     (mkState (Some PROJECTS_WORKFLOWS) Map.empty
        (Some (mkProject ''p2'' (Some ''Ops'') Team [''workflow:create'', ''folder:create'']))
        None False True)) = [(''credential'', True), (''folder'', False)] \<and>
   disabled (createWorkflowButton scopeResolver keyText
     (mkState (Some PROJECT_SETTINGS) Map.empty
        (Some (mkProject ''p2'' (Some ''Ops'') Team [''workflow:create'', ''credential:create'']))
        None True True)) = True \<and>
   map (\<lambda>a. (action_value a, disabled a)) (menu scopeResolver keyText
     (mkState (Some PROJECT_SETTINGS) Map.empty
        (Some (mkProject ''p2'' (Some ''Ops'') Team [''workflow:create'', ''credential:create'']))
        None True True)) = [(''credential'', True)]"
  using
    disabled_is_readOnly_or_not_permitted [of scopeResolver keyText
      "mkState (Some PROJECTS_WORKFLOWS) Map.empty
        (Some (mkProject ''p2'' (Some ''Ops'') Team [''workflow:create'', ''folder:create'']))
        None False True"]
    disabled_is_readOnly_or_not_permitted [of scopeResolver keyText
      "mkState (Some PROJECT_SETTINGS) Map.empty
        (Some (mkProject ''p2'' (Some ''Ops'') Team [''workflow:create'', ''credential:create'']))
        None True True"]
  by (simp add: mkState_def mkProject_def scopeResolver_def scopePermissions_def
      homeProject_def showFolders_def CREDENTIAL_def FOLDER_def)

text \<open>
  C2, as the claim has it: the action menu never contains an action for which the
  create permission is missing or which a read-only branch disallows. It fails: on
  a read-only branch, with a current project whose scopes give no create
  permission at all, the menu still contains the credential action and the folder
  action.
\<close>

theorem menu_contains_unpermitted_counterexample:
  "map action_value (menu scopeResolver keyText
     (mkState (Some PROJECTS_WORKFLOWS) Map.empty
        (Some (mkProject ''p2'' (Some ''Ops'') Team [])) None True True)) =
     [''credential'', ''folder''] \<and>
   branchReadOnly (preferences (sourceControlStore
     (mkState (Some PROJECTS_WORKFLOWS) Map.empty
        (Some (mkProject ''p2'' (Some ''Ops'') Team [])) None True True))) \<and>
   \<not> truthy (perm_create (perm_credential (scopeResolver (Option.bind (homeProject
     (mkState (Some PROJECTS_WORKFLOWS) Map.empty
        (Some (mkProject ''p2'' (Some ''Ops'') Team [])) None True True)) project_scopes)))) \<and>
   \<not> truthy (perm_create (perm_folder (scopeResolver (Option.bind (homeProject
     (mkState (Some PROJECTS_WORKFLOWS) Map.empty
        (Some (mkProject ''p2'' (Some ''Ops'') Team [])) None True True)) project_scopes))))"
  by (simp add: menu_def showFolders_def homeProject_def mkState_def mkProject_def
      scopeResolver_def scopePermissions_def CREDENTIAL_def FOLDER_def)

text \<open>
  C2, amended: the action menu never presents as enabled an action for which the
  create permission is missing or which a read-only branch disallows. The menu
  always contains the credential action, and the folder action whenever folders
  are shown; every action of the menu that is not disabled is on a branch that is
  not read-only and has the create permission of its resource, resolved when the
  menu is computed.
\<close>

theorem menu_enabled_only_if_permitted:
  "CREDENTIAL \<in> action_value ` set (menu getResourcePermissions baseText st) \<and>
   (showFolders st \<longrightarrow>
      FOLDER \<in> action_value ` set (menu getResourcePermissions baseText st)) \<and>
   (\<forall>a \<in> set (menu getResourcePermissions baseText st).
      \<not> disabled a \<longrightarrow>
        \<not> branchReadOnly (preferences (sourceControlStore st)) \<and>
        (action_value a = CREDENTIAL \<longrightarrow>
           truthy (perm_create (perm_credential
             (getResourcePermissions (Option.bind (homeProject st) project_scopes))))) \<and>
        (action_value a = FOLDER \<longrightarrow>
           truthy (perm_create (perm_folder
             (getResourcePermissions (Option.bind (homeProject st) project_scopes))))))"
  using action_names_distinct by (auto simp: menu_def Let_def)

theorem menu_enabled_only_if_permitted_witness:
  "map (\<lambda>a. (action_value a, disabled a)) (menu scopeResolver keyText
     (mkState (Some PROJECTS_FOLDERS) Map.empty
        (Some (mkProject ''p2'' (Some ''Ops'') Team [''folder:create''])) None False True)) =
     [(''credential'', True), (''folder'', False)] \<and>
   \<not> branchReadOnly (preferences (sourceControlStore
     (mkState (Some PROJECTS_FOLDERS) Map.empty
        (Some (mkProject ''p2'' (Some ''Ops'') Team [''folder:create''])) None False True))) \<and>
   truthy (perm_create (perm_folder (scopeResolver (Option.bind (homeProject
     (mkState (Some PROJECTS_FOLDERS) Map.empty
        (Some (mkProject ''p2'' (Some ''Ops'') Team [''folder:create''])) None False True))
     project_scopes))))"
  using menu_enabled_only_if_permitted [of scopeResolver keyText
      "mkState (Some PROJECTS_FOLDERS) Map.empty
        (Some (mkProject ''p2'' (Some ''Ops'') Team [''folder:create''])) None False True"]
  by (simp add: menu_def showFolders_def homeProject_def mkState_def mkProject_def
      scopeResolver_def scopePermissions_def CREDENTIAL_def FOLDER_def)

text \<open>
  C10. The create permissions behind the \<^verbatim>\<open>disabled\<close> flags are resolved from the
  scopes of the home project: those of the current project when there is one,
  otherwise those of the personal project. With no current project (the overview)
  the scopes of the personal project decide every flag.
\<close>

theorem disabled_resolved_from_homeProject:
  "(let scopes =
        (case currentProject (projectsStore st) of
           Some p \<Rightarrow> project_scopes p
         | None \<Rightarrow> Option.bind (personalProject (projectsStore st)) project_scopes)
    in
      disabled (createWorkflowButton getResourcePermissions baseText st) =
        (branchReadOnly (preferences (sourceControlStore st)) \<or>
         \<not> truthy (perm_create (perm_workflow (getResourcePermissions scopes)))) \<and>
      (\<forall>a \<in> set (menu getResourcePermissions baseText st).
         (action_value a = CREDENTIAL \<longrightarrow>
            disabled a =
              (branchReadOnly (preferences (sourceControlStore st)) \<or>
               \<not> truthy (perm_create (perm_credential (getResourcePermissions scopes))))) \<and>
         (action_value a = FOLDER \<longrightarrow>
            disabled a =
              (branchReadOnly (preferences (sourceControlStore st)) \<or>
               \<not> truthy (perm_create (perm_folder (getResourcePermissions scopes))))))) \<and>
   (currentProject (projectsStore st) = None \<longrightarrow>
      Option.bind (homeProject st) project_scopes =
        Option.bind (personalProject (projectsStore st)) project_scopes)"
  using action_names_distinct
  by (auto simp: createWorkflowButton_def menu_def Let_def homeProject_def split: option.splits)

theorem disabled_resolved_from_homeProject_witness:
  "disabled (createWorkflowButton scopeResolver keyText
     (mkState (Some PROJECTS_WORKFLOWS) Map.empty None
        (Some (mkProject ''p1'' (Some ''Me'') Personal [''workflow:create''])) False True)) = False \<and>
   map (\<lambda>a. (action_value a, disabled a)) (menu scopeResolver keyText
     (mkState (Some PROJECTS_WORKFLOWS) Map.empty None
        (Some (mkProject ''p1'' (Some ''Me'') Personal [''workflow:create''])) False True)) =
     [(''credential'', True), (''folder'', True)] \<and>
   disabled (createWorkflowButton scopeResolver keyText
     (mkState (Some PROJECTS_WORKFLOWS) Map.empty
        (Some (mkProject ''p2'' (Some ''Ops'') Team [''credential:create'']))
        (Some (mkProject ''p1'' (Some ''Me'') Personal [''workflow:create''])) False True)) = True \<and>
   map (\<lambda>a. (action_value a, disabled a)) (menu scopeResolver keyText
     (mkState (Some PROJECTS_WORKFLOWS) Map.empty
        (Some (mkProject ''p2'' (Some ''Ops'') Team [''credential:create'']))
        (Some (mkProject ''p1'' (Some ''Me'') Personal [''workflow:create''])) False True)) =
     [(''credential'', False), (''folder'', True)]"
  using
    disabled_resolved_from_homeProject [of
      "mkState (Some PROJECTS_WORKFLOWS) Map.empty None
        (Some (mkProject ''p1'' (Some ''Me'') Personal [''workflow:create''])) False True"
      scopeResolver keyText]
    disabled_resolved_from_homeProject [of
      "mkState (Some PROJECTS_WORKFLOWS) Map.empty
        (Some (mkProject ''p2'' (Some ''Ops'') Team [''credential:create'']))
        (Some (mkProject ''p1'' (Some ''Me'') Personal [''workflow:create''])) False True"
      scopeResolver keyText]
  by (simp add: createWorkflowButton_def menu_def showFolders_def homeProject_def
      mkState_def mkProject_def scopeResolver_def scopePermissions_def
      CREDENTIAL_def FOLDER_def)

subsection \<open>Selecting an action\<close>

text \<open>
  C5. When the current project and the personal project are both absent, selecting
  the folder action returns the state as it was: no call of \<^verbatim>\<open>router.push\<close> is
  added and \<^verbatim>\<open>createFolder\<close> is not emitted.
\<close>

theorem onSelect_folder_without_home:
  assumes "currentProject (projectsStore st) = None"
    and "personalProject (projectsStore st) = None"
  shows "onSelect FOLDER st = Inr st"
  using assms by (simp add: onSelect_def homeProject_def)

theorem onSelect_folder_without_home_witness:
  "onSelect ''folder'' (mkState (Some PROJECTS_WORKFLOWS) Map.empty None None False True) =
     Inr (mkState (Some PROJECTS_WORKFLOWS) Map.empty None None False True) \<and>
   pushed (mkState (Some PROJECTS_WORKFLOWS) Map.empty None None False True) = [] \<and>
   emitted (mkState (Some PROJECTS_WORKFLOWS) Map.empty None None False True) = []"
  using onSelect_folder_without_home
    [of "mkState (Some PROJECTS_WORKFLOWS) Map.empty None None False True"]
  by (simp add: mkState_def FOLDER_def)

text \<open>
  C6. Whenever a home project is resolvable, selecting the workflow action calls
  \<^verbatim>\<open>router.push\<close> once, with the new-workflow route and the query parameters
  \<^verbatim>\<open>projectId\<close>, the id of the home project, and \<^verbatim>\<open>parentFolderId\<close>, the
  \<^verbatim>\<open>folderId\<close> parameter of the current route. Nothing is emitted.
\<close>

theorem onSelect_workflow_navigates:
  assumes "homeProject st = Some home"
  shows "onSelect WORKFLOW st =
     Inr (st\<lparr>pushed := pushed st @
       [\<lparr>loc_name = NEW_WORKFLOW,
         loc_query =
           [(''projectId'', Some (PString (project_id home))),
            (''parentFolderId'', route_params (route st) ''folderId'')],
         loc_params = []\<rparr>]\<rparr>)"
  using assms by (simp add: onSelect_def actions_WORKFLOW router_push_def)

theorem onSelect_workflow_navigates_witness:
  "onSelect ''workflow''
     (mkState (Some PROJECTS_FOLDERS) [''folderId'' \<mapsto> PString ''f7'']
        None (Some (mkProject ''p1'' (Some ''Me'') Personal [])) False True) =
   Inr ((mkState (Some PROJECTS_FOLDERS) [''folderId'' \<mapsto> PString ''f7'']
        None (Some (mkProject ''p1'' (Some ''Me'') Personal [])) False True)
     \<lparr>pushed :=
       [\<lparr>loc_name = NEW_WORKFLOW,
         loc_query =
           [(''projectId'', Some (PString ''p1'')),
            (''parentFolderId'', Some (PString ''f7''))],
         loc_params = []\<rparr>]\<rparr>)"
  using onSelect_workflow_navigates
    [of "mkState (Some PROJECTS_FOLDERS) [''folderId'' \<mapsto> PString ''f7'']
        None (Some (mkProject ''p1'' (Some ''Me'') Personal [])) False True"
      "mkProject ''p1'' (Some ''Me'') Personal []"]
  by (simp add: homeProject_def mkState_def mkProject_def WORKFLOW_def)

text \<open>
  C9. On selecting one of the three actions, the project id that reaches the
  effect is the id of the current project when there is one, otherwise the id of
  the personal project: the workflow action pushes the new-workflow route with
  that id as the query parameter \<^verbatim>\<open>projectId\<close>, the credential action pushes
  the credential route with that id as the path parameter \<^verbatim>\<open>projectId\<close>, and
  the folder action, whose effect carries no id, emits \<^verbatim>\<open>createFolder\<close>. The
  selection leaves the state as it was exactly when both projects are absent.
\<close>

theorem onSelect_passes_home_id:
  assumes "action \<in> {WORKFLOW, CREDENTIAL, FOLDER}"
  shows
    "(\<forall>home.
        currentProject (projectsStore st) = Some home \<or>
        (currentProject (projectsStore st) = None \<and>
         personalProject (projectsStore st) = Some home) \<longrightarrow>
        (action = WORKFLOW \<longrightarrow>
           onSelect action st =
             Inr (st\<lparr>pushed := pushed st @
               [\<lparr>loc_name = NEW_WORKFLOW,
                 loc_query =
                   [(''projectId'', Some (PString (project_id home))),
                    (''parentFolderId'', route_params (route st) ''folderId'')],
                 loc_params = []\<rparr>]\<rparr>)) \<and>
        (action = CREDENTIAL \<longrightarrow>
           onSelect action st =
             Inr (st\<lparr>pushed := pushed st @
               [\<lparr>loc_name = PROJECTS_CREDENTIALS,
                 loc_query = [],
                 loc_params =
                   [(''projectId'', Some (PString (project_id home))),
                    (''credentialId'', Some (PString ''create''))]\<rparr>]\<rparr>)) \<and>
        (action = FOLDER \<longrightarrow>
           onSelect action st = Inr (st\<lparr>emitted := emitted st @ [''createFolder'']\<rparr>))) \<and>
     (onSelect action st = Inr st \<longleftrightarrow>
        currentProject (projectsStore st) = None \<and>
        personalProject (projectsStore st) = None)"
proof -
  have home: "homeProject st = Some home"
    if "currentProject (projectsStore st) = Some home \<or>
        (currentProject (projectsStore st) = None \<and>
         personalProject (projectsStore st) = Some home)" for home
    using that by (auto simp: homeProject_def)
  have none: "homeProject st = None \<longleftrightarrow>
      currentProject (projectsStore st) = None \<and> personalProject (projectsStore st) = None"
    by (simp add: homeProject_def split: option.splits)
  have without: "onSelect action st = Inr st" if "homeProject st = None"
    using that by (simp add: onSelect_def)
  from assms consider (W) "action = WORKFLOW" | (C) "action = CREDENTIAL" | (F) "action = FOLDER"
    by auto
  then show ?thesis
  proof cases
    case W
    have run: "onSelect action st = Inr (router_push
        \<lparr>loc_name = NEW_WORKFLOW,
         loc_query =
           [(''projectId'', Some (PString (project_id h))),
            (''parentFolderId'', route_params (route st) ''folderId'')],
         loc_params = []\<rparr> st)" if "homeProject st = Some h" for h
      using that by (simp add: W onSelect_def actions_WORKFLOW)
    have "onSelect action st \<noteq> Inr st" if "homeProject st = Some h" for h
      using run [OF that] router_push_changes by simp
    then have "onSelect action st = Inr st \<longleftrightarrow> homeProject st = None"
      using without by (cases "homeProject st") auto
    then show ?thesis
      using W action_names_distinct run home none by (auto simp: router_push_def)
  next
    case C
    have run: "onSelect action st = Inr (router_push
        \<lparr>loc_name = PROJECTS_CREDENTIALS,
         loc_query = [],
         loc_params =
           [(''projectId'', Some (PString (project_id h))),
            (''credentialId'', Some (PString ''create''))]\<rparr> st)" if "homeProject st = Some h" for h
      using that by (simp add: C onSelect_def actions_CREDENTIAL)
    have "onSelect action st \<noteq> Inr st" if "homeProject st = Some h" for h
      using run [OF that] router_push_changes by simp
    then have "onSelect action st = Inr st \<longleftrightarrow> homeProject st = None"
      using without by (cases "homeProject st") auto
    then show ?thesis
      using C action_names_distinct run home none by (auto simp: router_push_def)
  next
    case F
    have run: "onSelect action st = Inr (emit ''createFolder'' st)"
      if "homeProject st = Some h" for h
      using that by (simp add: F onSelect_def actions_FOLDER)
    have "onSelect action st \<noteq> Inr st" if "homeProject st = Some h" for h
      using run [OF that] emit_changes by simp
    then have "onSelect action st = Inr st \<longleftrightarrow> homeProject st = None"
      using without by (cases "homeProject st") auto
    then show ?thesis
      using F action_names_distinct run home none by (auto simp: emit_def)
  qed
qed

theorem onSelect_passes_home_id_witness:
  "onSelect ''credential''
     (mkState None Map.empty
        (Some (mkProject ''p2'' (Some ''Ops'') Team []))
        (Some (mkProject ''p1'' (Some ''Me'') Personal [])) False False) =
   Inr ((mkState None Map.empty
        (Some (mkProject ''p2'' (Some ''Ops'') Team []))
        (Some (mkProject ''p1'' (Some ''Me'') Personal [])) False False)
     \<lparr>pushed :=
       [\<lparr>loc_name = PROJECTS_CREDENTIALS,
         loc_query = [],
         loc_params =
           [(''projectId'', Some (PString ''p2'')),
            (''credentialId'', Some (PString ''create''))]\<rparr>]\<rparr>) \<and>
   onSelect ''workflow''
     (mkState None Map.empty None
        (Some (mkProject ''p1'' (Some ''Me'') Personal [])) False False) =
   Inr ((mkState None Map.empty None
        (Some (mkProject ''p1'' (Some ''Me'') Personal [])) False False)
     \<lparr>pushed :=
       [\<lparr>loc_name = NEW_WORKFLOW,
         loc_query = [(''projectId'', Some (PString ''p1'')), (''parentFolderId'', None)],
         loc_params = []\<rparr>]\<rparr>) \<and>
   onSelect ''folder''
     (mkState None Map.empty None
        (Some (mkProject ''p1'' (Some ''Me'') Personal [])) False False) =
   Inr ((mkState None Map.empty None
        (Some (mkProject ''p1'' (Some ''Me'') Personal [])) False False)
     \<lparr>emitted := [''createFolder'']\<rparr>) \<and>
   onSelect ''credential'' (mkState None Map.empty None None False False) =
   Inr (mkState None Map.empty None None False False)"
  using
    onSelect_passes_home_id [of CREDENTIAL "mkState None Map.empty
        (Some (mkProject ''p2'' (Some ''Ops'') Team []))
        (Some (mkProject ''p1'' (Some ''Me'') Personal [])) False False"]
    onSelect_passes_home_id [of WORKFLOW "mkState None Map.empty None
        (Some (mkProject ''p1'' (Some ''Me'') Personal [])) False False"]
    onSelect_passes_home_id [of FOLDER "mkState None Map.empty None
        (Some (mkProject ''p1'' (Some ''Me'') Personal [])) False False"]
    onSelect_passes_home_id [of CREDENTIAL "mkState None Map.empty None None False False"]
  by (simp add: mkState_def mkProject_def WORKFLOW_def CREDENTIAL_def FOLDER_def)

text \<open>
  C8. The component never changes the project store, the source-control store or
  the settings store. The computed values are functions of the state and return no
  state; a selection that returns leaves the three stores and the route as they
  were, and the state it returns is the old one, or the old one with one more call
  of \<^verbatim>\<open>router.push\<close>, or the old one with one more \<^verbatim>\<open>createFolder\<close> emitted.
\<close>

theorem onSelect_frame:
  assumes "onSelect action st = Inr st'"
  shows "projectsStore st' = projectsStore st \<and>
     sourceControlStore st' = sourceControlStore st \<and>
     settingsStore st' = settingsStore st \<and>
     route st' = route st \<and>
     (st' = st \<or>
      (\<exists>loc. st' = st\<lparr>pushed := pushed st @ [loc]\<rparr>) \<or>
      st' = st\<lparr>emitted := emitted st @ [''createFolder'']\<rparr>)"
proof (cases "homeProject st")
  case None
  with assms have "st' = st" by (simp add: onSelect_def)
  then show ?thesis by simp
next
  case (Some home)
  with assms obtain f where f: "actions action = Some f"
    and st': "st' = f (project_id home) st"
    by (auto simp: onSelect_def split: option.splits)
  from actions_cases [OF f, of "project_id home" st]
  consider (push) loc where "f (project_id home) st = router_push loc st"
    | (emit) "f (project_id home) st = emit ''createFolder'' st"
    | (same) "f (project_id home) st = st"
    by blast
  then show ?thesis
  proof cases
    case push
    then have "st' = router_push loc st" using st' by simp
    then show ?thesis by (auto simp: router_push_def)
  next
    case emit
    then have "st' = emit ''createFolder'' st" using st' by simp
    then show ?thesis by (simp add: emit_def)
  next
    case same
    then have "st' = st" using st' by simp
    then show ?thesis by simp
  qed
qed

theorem onSelect_frame_witness:
  "onSelect ''folder''
     (mkState (Some PROJECTS_WORKFLOWS) Map.empty
        (Some (mkProject ''p2'' (Some ''Ops'') Team [])) None False True) =
   Inr ((mkState (Some PROJECTS_WORKFLOWS) Map.empty
        (Some (mkProject ''p2'' (Some ''Ops'') Team [])) None False True)
     \<lparr>emitted := [''createFolder'']\<rparr>) \<and>
   projectsStore ((mkState (Some PROJECTS_WORKFLOWS) Map.empty
        (Some (mkProject ''p2'' (Some ''Ops'') Team [])) None False True)
     \<lparr>emitted := [''createFolder'']\<rparr>) =
   projectsStore (mkState (Some PROJECTS_WORKFLOWS) Map.empty
        (Some (mkProject ''p2'' (Some ''Ops'') Team [])) None False True)"
proof -
  have run: "onSelect ''folder''
     (mkState (Some PROJECTS_WORKFLOWS) Map.empty
        (Some (mkProject ''p2'' (Some ''Ops'') Team [])) None False True) =
   Inr ((mkState (Some PROJECTS_WORKFLOWS) Map.empty
        (Some (mkProject ''p2'' (Some ''Ops'') Team [])) None False True)
     \<lparr>emitted := [''createFolder'']\<rparr>)"
    using actions_FOLDER
    by (simp add: onSelect_def homeProject_def emit_def mkState_def mkProject_def FOLDER_def)
  from onSelect_frame [OF run] run show ?thesis by simp
qed

end
